theory Spec2Isabelle
  imports Main "HOL-Library.Word" "HOL-Library.Multiset"
begin

section \<open>The status record service of CloudDB (entity\_status.go)\<close>

text \<open>
  The file \<^verbatim>\<open>entity_status.go\<close> holds three request handlers over the App Engine
  datastore: \<^verbatim>\<open>insertStatus\<close> (submit), \<^verbatim>\<open>getStatus\<close> (queryAll) and
  \<^verbatim>\<open>getCurrentStatus\<close> (queryLatest), and the two mapping functions between the
  wire record and the stored record. The handlers are embedded as functions over an
  explicit world (the stored entities and the log of datastore calls); what the
  libraries decide (the time parser, the clock, the reply of the datastore) is an
  input of the model.
\<close>

subsection \<open>Time\<close>

text \<open>
  A \<^verbatim>\<open>time.Time\<close> is an instant on a line. It is counted here from Go's zero value
  \<^verbatim>\<open>time.Time{}\<close> (January 1 of year 1, 00:00 UTC); Go represents instants before
  the zero value as well (\<^verbatim>\<open>time.Date(0, ...)\<close>, and \<^verbatim>\<open>time.Parse\<close> accepts the
  year \<^verbatim>\<open>0000\<close>), so the type is \<open>int\<close> and not \<open>nat\<close>.
\<close>

type_synonym Time = int

definition zeroTime :: Time where
  "zeroTime = 0"

text \<open>\<^verbatim>\<open>time.RFC3339\<close>, a constant of Go's library.\<close>

definition RFC3339 :: string where
  "RFC3339 = ''2006-01-02T15:04:05Z07:00''"

text \<open>
  The environment of a request. \<open>dateTimeLayout\<close> is the layout constant the file uses
  and another file of the package declares; \<open>Parse\<close> and \<open>Format\<close> are the layout
  interpreter of Go's \<^verbatim>\<open>time\<close> package (\<open>Inl\<close> carries the text of the parse error);
  \<open>Now\<close> is the reading of the clock that \<^verbatim>\<open>time.Now()\<close> returns in this request.
\<close>

record environment =
  dateTimeLayout :: string
  Parse :: "string \<Rightarrow> string \<Rightarrow> string + Time"
  Format :: "string \<Rightarrow> Time \<Rightarrow> string"
  Now :: Time

text \<open>
  \<^verbatim>\<open>time.Parse(layout, value)\<close> returns a pair: the instant and the error. On every
  failure the instant is the zero value \<^verbatim>\<open>Time{}\<close>.
\<close>

definition time_Parse :: "environment \<Rightarrow> string \<Rightarrow> string \<Rightarrow> Time \<times> string option" where
  "time_Parse env layout v =
     (case Parse env layout v of
        Inl msg \<Rightarrow> (zeroTime, Some msg)
      | Inr t \<Rightarrow> (t, None))"

definition time_Now :: "environment \<Rightarrow> Time" where
  "time_Now env = Now env"

subsection \<open>The stored record and the wire record\<close>

type_synonym int64 = "64 word"

text \<open>
  \<^verbatim>\<open>StatusEntity\<close>, the stored struct. \<open>Status\<close> is a Go \<^verbatim>\<open>int\<close> that the service
  only copies, so it is carried as an \<open>int\<close>.
\<close>

record StatusEntity =
  Status :: int
  ChangeDate :: Time

text \<open>
  \<^verbatim>\<open>StatusEntityAPIv1\<close>, the wire struct; its fields are named by their JSON tags
  (\<^verbatim>\<open>id\<close>, \<^verbatim>\<open>status\<close>, \<^verbatim>\<open>changeDate\<close>) to keep them apart from the stored ones.
\<close>

record StatusEntityAPIv1 =
  json_id :: int64
  json_status :: int
  json_changeDate :: string

text \<open>The zero values that \<^verbatim>\<open>new(T)\<close> and \<^verbatim>\<open>var x T\<close> give.\<close>

definition new_StatusEntity :: StatusEntity where
  "new_StatusEntity = \<lparr>Status = 0, ChangeDate = zeroTime\<rparr>"

definition new_StatusEntityAPIv1 :: StatusEntityAPIv1 where
  "new_StatusEntityAPIv1 = \<lparr>json_id = 0, json_status = 0, json_changeDate = ''''\<rparr>"

definition statusDBEntity :: string where
  "statusDBEntity = ''statusentity''"

definition statusDBEntityRootKey :: string where
  "statusDBEntityRootKey = ''statusroot''"

definition mapAPItoDBStatus :: "environment \<Rightarrow> StatusEntityAPIv1 \<Rightarrow> StatusEntity \<Rightarrow> StatusEntity" where
  "mapAPItoDBStatus env api db =
     (let db1 = db\<lparr>Status := json_status api\<rparr> in
      if json_changeDate api \<noteq> ''''
      then db1\<lparr>ChangeDate := fst (time_Parse env (dateTimeLayout env) (json_changeDate api))\<rparr>
      else db1\<lparr>ChangeDate := time_Now env\<rparr>)"

definition mapDBtoAPIStatus :: "environment \<Rightarrow> StatusEntity \<Rightarrow> StatusEntityAPIv1 \<Rightarrow> StatusEntityAPIv1" where
  "mapDBtoAPIStatus env db api =
     api\<lparr>json_status := Status db,
         json_changeDate := Format env (dateTimeLayout env) (ChangeDate db)\<rparr>"

subsection \<open>The datastore\<close>

text \<open>
  A datastore key: kind, string id, integer id and parent. A key is incomplete when
  both ids are zero values; \<^verbatim>\<open>Put\<close> completes it with a newly allocated integer id.
\<close>

datatype Key = Key (Kind: string) (StringID: string) (IntID: int64) (Parent: "Key option")

definition NewKey :: "string \<Rightarrow> string \<Rightarrow> int64 \<Rightarrow> Key option \<Rightarrow> Key" where
  "NewKey kind stringID intID parent = Key kind stringID intID parent"

definition NewIncompleteKey :: "string \<Rightarrow> Key option \<Rightarrow> Key" where
  "NewIncompleteKey kind parent = NewKey kind '''' 0 parent"

definition Incomplete :: "Key \<Rightarrow> bool" where
  "Incomplete k = (StringID k = '''' \<and> IntID k = 0)"

definition statusEntityRootKey :: Key where
  "statusEntityRootKey = NewKey statusDBEntity statusDBEntityRootKey 0 None"

text \<open>
  The errors a datastore call reports: the quota error that \<^verbatim>\<open>appengine.IsOverQuota\<close>
  recognises, the \<^verbatim>\<open>ErrFieldMismatch\<close> of loading an entity into a struct of another
  shape, and every other error. Each carries the text its \<^verbatim>\<open>Error()\<close> returns.
\<close>

datatype backend_error = OverQuota string | ErrFieldMismatch string | OtherError string

fun Error :: "backend_error \<Rightarrow> string" where
  "Error (OverQuota m) = m"
| "Error (ErrFieldMismatch m) = m"
| "Error (OtherError m) = m"

fun IsOverQuota :: "backend_error \<Rightarrow> bool" where
  "IsOverQuota (OverQuota m) = True"
| "IsOverQuota e = False"

text \<open>
  Modelled from the spec: \<^verbatim>\<open>isErrFieldMismatch\<close> is a helper of the package that is
  declared in another file; following the spec it recognises the storage layer's
  field mismatch condition and nothing else.
\<close>

fun isErrFieldMismatch :: "backend_error \<Rightarrow> bool" where
  "isErrFieldMismatch (ErrFieldMismatch m) = True"
| "isErrFieldMismatch e = False"

text \<open>
  A query as the file builds it: the kind, the lower bound of
  \<^verbatim>\<open>Filter("ChangeDate >=", d)\<close>, the order \<^verbatim>\<open>Order("-ChangeDate")\<close> and the
  \<^verbatim>\<open>Limit(n)\<close>.
\<close>

record Query =
  q_kind :: string
  q_changeDate_ge :: "Time option"
  q_order_changeDate_desc :: bool
  q_limit :: "nat option"

definition NewQuery :: "string \<Rightarrow> Query" where
  "NewQuery kind =
     \<lparr>q_kind = kind, q_changeDate_ge = None, q_order_changeDate_desc = False, q_limit = None\<rparr>"

definition Filter_ChangeDate_ge :: "Query \<Rightarrow> Time \<Rightarrow> Query" where
  "Filter_ChangeDate_ge q d = q\<lparr>q_changeDate_ge := Some d\<rparr>"

definition Order_ChangeDate_desc :: "Query \<Rightarrow> Query" where
  "Order_ChangeDate_desc q = q\<lparr>q_order_changeDate_desc := True\<rparr>"

definition Limit :: "Query \<Rightarrow> nat \<Rightarrow> Query" where
  "Limit q n = q\<lparr>q_limit := Some n\<rparr>"

datatype ds_call = PutCall Key StatusEntity | GetAllCall Query

text \<open>
  The world a handler runs in: the stored entities with their keys, in the order they
  were written (each entity as the value that loading it into a \<^verbatim>\<open>StatusEntity\<close>
  gives), and the datastore calls issued so far.
\<close>

record world =
  entities :: "(Key \<times> StatusEntity) list"
  calls :: "ds_call list"

text \<open>
  The answer of a query: the entities of the kind, at or after the lower bound, by
  descending \<open>ChangeDate\<close> (entities of equal date stay in stored order), cut at the
  limit.
\<close>

definition run_query :: "Query \<Rightarrow> (Key \<times> StatusEntity) list \<Rightarrow> (Key \<times> StatusEntity) list" where
  "run_query q es =
     (let es1 = filter (\<lambda>ke. Kind (fst ke) = q_kind q) es;
          es2 = (case q_changeDate_ge q of
                   None \<Rightarrow> es1
                 | Some d \<Rightarrow> filter (\<lambda>ke. d \<le> ChangeDate (snd ke)) es1);
          es3 = (if q_order_changeDate_desc q
                 then sort_key (\<lambda>ke. - ChangeDate (snd ke)) es2
                 else es2)
      in case q_limit q of None \<Rightarrow> es3 | Some n \<Rightarrow> take n es3)"

text \<open>
  \<^verbatim>\<open>q.GetAll(ctx, &dst)\<close> returns the keys and the error and appends the loaded
  entities to \<open>dst\<close>. The first argument is what the backend reports for this call:
  no error, a field mismatch (loading goes on over all entities and the error is
  returned at the end), or a failure (the handlers drop whatever was loaded before it).
\<close>

definition GetAll :: "backend_error option \<Rightarrow> Query \<Rightarrow> world \<Rightarrow>
    (Key list \<times> StatusEntity list \<times> backend_error option) \<times> world" where
  "GetAll reply q w =
     (let w1 = w\<lparr>calls := calls w @ [GetAllCall q]\<rparr>;
          rs = run_query q (entities w)
      in case reply of
           None \<Rightarrow> ((map fst rs, map snd rs, None), w1)
         | Some (ErrFieldMismatch m) \<Rightarrow> ((map fst rs, map snd rs, Some (ErrFieldMismatch m)), w1)
         | Some err \<Rightarrow> (([], [], Some err), w1))"

text \<open>
  \<^verbatim>\<open>datastore.Put(ctx, key, src)\<close>: the backend either fails, and nothing is written,
  or allocates an integer id for an incomplete key and writes the entity under the
  complete key; an entity already stored under that key is overwritten.
\<close>

datatype put_reply = PutFailed backend_error | PutAssigned int64

definition store_entity :: "Key \<Rightarrow> StatusEntity \<Rightarrow> (Key \<times> StatusEntity) list \<Rightarrow> (Key \<times> StatusEntity) list" where
  "store_entity k e es =
     (if k \<in> set (map fst es)
      then map (\<lambda>ke. if fst ke = k then (k, e) else ke) es
      else es @ [(k, e)])"

definition Put :: "put_reply \<Rightarrow> Key \<Rightarrow> StatusEntity \<Rightarrow> world \<Rightarrow> (backend_error + Key) \<times> world" where
  "Put reply key src w =
     (let w1 = w\<lparr>calls := calls w @ [PutCall key src]\<rparr>
      in case reply of
           PutFailed err \<Rightarrow> (Inl err, w1)
         | PutAssigned newid \<Rightarrow>
             (let k = (if Incomplete key
                       then Key (Kind key) (StringID key) newid (Parent key)
                       else key)
              in (Inr k, w1\<lparr>entities := store_entity k src (entities w1)\<rparr>)))"

subsection \<open>Responses\<close>

text \<open>
  What a handler leaves behind: a response with its status code and entity, or the
  run-time panic of an index out of range.
\<close>

datatype payload = PlainText string | StringEntity string | ListEntity "StatusEntityAPIv1 list"

datatype outcome = Response nat payload | IndexOutOfRange

text \<open>
  Modelled from the spec: \<^verbatim>\<open>addPlainTextError\<close> is a helper of the package that is
  declared in another file; following the spec it answers with the given status code
  and the given message as plain text.
\<close>

definition addPlainTextError :: "nat \<Rightarrow> string \<Rightarrow> outcome" where
  "addPlainTextError code msg = Response code (PlainText msg)"

definition WriteHeaderAndEntity :: "nat \<Rightarrow> payload \<Rightarrow> outcome" where
  "WriteHeaderAndEntity code v = Response code v"

definition StatusOK :: nat where "StatusOK = 200"
definition StatusCreated :: nat where "StatusCreated = 201"
definition StatusBadRequest :: nat where "StatusBadRequest = 400"
definition StatusInternalServerError :: nat where "StatusInternalServerError = 500"
definition StatusServiceUnavailable :: nat where "StatusServiceUnavailable = 503"

subsection \<open>Decimal rendering\<close>

text \<open>\<^verbatim>\<open>strconv.FormatInt(i, 10)\<close>: the decimal digits of a signed 64-bit integer.\<close>

definition digit_char :: "nat \<Rightarrow> char" where
  "digit_char d = ''0123456789'' ! d"

function digits10 :: "nat \<Rightarrow> string" where
  "digits10 n = (if n < 10 then [digit_char n] else digits10 (n div 10) @ [digit_char (n mod 10)])"
  by pat_completeness auto
termination
  by (relation "measure id") auto

declare digits10.simps [simp del]

definition FormatInt10 :: "int64 \<Rightarrow> string" where
  "FormatInt10 i =
     (if sint i < 0 then CHR ''-'' # digits10 (nat (- sint i)) else digits10 (nat (sint i)))"

text \<open>Reading a decimal string back, to state what the rendering means.\<close>

definition digit_value :: "char \<Rightarrow> nat" where
  "digit_value c = of_char c - 48"

definition decimal_value :: "string \<Rightarrow> nat" where
  "decimal_value s = foldl (\<lambda>acc c. 10 * acc + digit_value c) 0 s"

definition ParseInt10 :: "string \<Rightarrow> int" where
  "ParseInt10 s =
     (case s of
        [] \<Rightarrow> 0
      | c # cs \<Rightarrow> if c = CHR ''-'' then - int (decimal_value cs) else int (decimal_value s))"

subsection \<open>The handlers\<close>

text \<open>
  \<^verbatim>\<open>insertStatus\<close>. \<open>body\<close> is what \<^verbatim>\<open>request.ReadEntity\<close> gives: the error text, or
  the decoded wire record (a field absent from the JSON is left at its zero value).
\<close>

definition insertStatus :: "environment \<Rightarrow> put_reply \<Rightarrow> string + StatusEntityAPIv1 \<Rightarrow> world \<Rightarrow> outcome \<times> world" where
  "insertStatus env reply body w =
     (case body of
        Inl err \<Rightarrow> (addPlainTextError StatusInternalServerError err, w)
      | Inr status \<Rightarrow>
          (let statusDB = mapAPItoDBStatus env status new_StatusEntity;
               key = NewIncompleteKey statusDBEntity (Some statusEntityRootKey);
               (res, w1) = Put reply key statusDB w
           in case res of
                Inl err \<Rightarrow>
                  if IsOverQuota err
                  then (addPlainTextError StatusServiceUnavailable ''503 - Over Quota'', w1)
                  else (addPlainTextError StatusInternalServerError (Error err), w1)
              | Inr key1 \<Rightarrow>
                  (WriteHeaderAndEntity StatusCreated (StringEntity (FormatInt10 (IntID key1))), w1)))"

text \<open>
  The loop of \<^verbatim>\<open>getStatus\<close> over \<open>statusOnDBList\<close>, with the index \<open>i\<close> and the list
  built so far; \<^verbatim>\<open>k[i]\<close> panics when the key list is too short.
\<close>

fun status_loop :: "environment \<Rightarrow> Key list \<Rightarrow> nat \<Rightarrow> StatusEntity list \<Rightarrow>
    StatusEntityAPIv1 list \<Rightarrow> StatusEntityAPIv1 list option" where
  "status_loop env k i [] statusList = Some statusList"
| "status_loop env k i (statusDB # rest) statusList =
     (if i < length k
      then (let statusAPI = mapDBtoAPIStatus env statusDB new_StatusEntityAPIv1;
                statusAPI1 = statusAPI\<lparr>json_id := IntID (k ! i)\<rparr>
            in status_loop env k (Suc i) rest (statusList @ [statusAPI1]))
      else None)"

text \<open>
  \<^verbatim>\<open>getStatus\<close>. \<open>dateString\<close> is what \<^verbatim>\<open>request.QueryParameter("dateFrom")\<close>
  returns: the empty string when the parameter is absent.
\<close>

definition getStatus :: "environment \<Rightarrow> backend_error option \<Rightarrow> string \<Rightarrow> world \<Rightarrow> outcome \<times> world" where
  "getStatus env reply dateString w =
     (let (date, perr) = (if dateString \<noteq> '''' then time_Parse env RFC3339 dateString
                          else (zeroTime, None))
      in case perr of
           Some msg \<Rightarrow>
             (addPlainTextError StatusBadRequest (msg @ '' - Correct format is RFC3339''), w)
         | None \<Rightarrow>
             (let q = Order_ChangeDate_desc (Filter_ChangeDate_ge (NewQuery statusDBEntity) date);
                  ((k, statusOnDBList, err), w1) = GetAll reply q w
              in case (case err of None \<Rightarrow> None
                       | Some e \<Rightarrow> if isErrFieldMismatch e then None else Some e) of
                   Some e \<Rightarrow>
                     if IsOverQuota e
                     then (addPlainTextError StatusServiceUnavailable ''503 - Over Quota'', w1)
                     else (addPlainTextError StatusInternalServerError (Error e), w1)
                 | None \<Rightarrow>
                     (case status_loop env k 0 statusOnDBList [] of
                        None \<Rightarrow> (IndexOutOfRange, w1)
                      | Some statusList \<Rightarrow>
                          (WriteHeaderAndEntity StatusOK (ListEntity statusList), w1))))"

text \<open>
  \<^verbatim>\<open>getCurrentStatus\<close>: \<^verbatim>\<open>statusOnDBList[0]\<close> and \<^verbatim>\<open>k[0]\<close> are read without a
  check of the length.
\<close>

definition getCurrentStatus :: "environment \<Rightarrow> backend_error option \<Rightarrow> world \<Rightarrow> outcome \<times> world" where
  "getCurrentStatus env reply w =
     (let q = Limit (Order_ChangeDate_desc (NewQuery statusDBEntity)) 1;
          ((k, statusOnDBList, err), w1) = GetAll reply q w
      in case (case err of None \<Rightarrow> None
               | Some e \<Rightarrow> if isErrFieldMismatch e then None else Some e) of
           Some e \<Rightarrow>
             if IsOverQuota e
             then (addPlainTextError StatusServiceUnavailable ''503 - Over Quota'', w1)
             else (addPlainTextError StatusInternalServerError (Error e), w1)
         | None \<Rightarrow>
             (case statusOnDBList of
                [] \<Rightarrow> (IndexOutOfRange, w1)
              | statusDB0 # rest \<Rightarrow>
                  (case k of
                     [] \<Rightarrow> (IndexOutOfRange, w1)
                   | k0 # krest \<Rightarrow>
                       (let statusAPI = mapDBtoAPIStatus env statusDB0 new_StatusEntityAPIv1;
                            statusAPI1 = statusAPI\<lparr>json_id := IntID k0\<rparr>
                        in (WriteHeaderAndEntity StatusOK (ListEntity ([] @ [statusAPI1])), w1)))))"

subsection \<open>Vocabulary of the properties\<close>

text \<open>
  The wire record that both read handlers build from a stored entity and its key.
\<close>

definition api_record :: "environment \<Rightarrow> Key \<times> StatusEntity \<Rightarrow> StatusEntityAPIv1" where
  "api_record env ke =
     (mapDBtoAPIStatus env (snd ke) new_StatusEntityAPIv1)\<lparr>json_id := IntID (fst ke)\<rparr>"

text \<open>
  A reply of the backend that a read handler goes on with: no error, or a field
  mismatch.
\<close>

definition tolerated :: "backend_error option \<Rightarrow> bool" where
  "tolerated reply = (case reply of None \<Rightarrow> True | Some e \<Rightarrow> isErrFieldMismatch e)"

text \<open>The two queries the read handlers build.\<close>

definition all_query :: "Time \<Rightarrow> Query" where
  "all_query d = Order_ChangeDate_desc (Filter_ChangeDate_ge (NewQuery statusDBEntity) d)"

definition latest_query :: Query where
  "latest_query = Limit (Order_ChangeDate_desc (NewQuery statusDBEntity)) 1"

text \<open>The status records of a world: the stored entities of the kind the service uses.\<close>

definition status_records :: "world \<Rightarrow> (Key \<times> StatusEntity) list" where
  "status_records w = filter (\<lambda>ke. Kind (fst ke) = statusDBEntity) (entities w)"

text \<open>The complete key of a status record with the given integer id.\<close>

definition status_key :: "int64 \<Rightarrow> Key" where
  "status_key newid = Key statusDBEntity '''' newid (Some statusEntityRootKey)"

text \<open>
  What the datastore promises of the id it allocates: no stored entity has it.
\<close>

definition fresh_id :: "world \<Rightarrow> int64 \<Rightarrow> bool" where
  "fresh_id w newid = (newid \<notin> set (map (\<lambda>ke. IntID (fst ke)) (entities w)))"

text \<open>The answer all three handlers give to a storage error they do not tolerate.\<close>

definition quota_or_failure :: "backend_error \<Rightarrow> outcome" where
  "quota_or_failure e =
     (if IsOverQuota e then Response 503 (PlainText ''503 - Over Quota'')
      else Response 500 (PlainText (Error e)))"

text \<open>
  The lower bound that \<^verbatim>\<open>getStatus\<close> reads from its parameter: the zero time when
  the parameter is empty, the parsed instant when it parses, none when it does not.
\<close>

definition dateFrom_bound :: "environment \<Rightarrow> string \<Rightarrow> Time option" where
  "dateFrom_bound env dateString =
     (if dateString = '''' then Some zeroTime
      else case Parse env RFC3339 dateString of Inl msg \<Rightarrow> None | Inr d \<Rightarrow> Some d)"

text \<open>
  A small environment and worlds on which the handlers are run below. Instants are in
  seconds; the parser knows two dates, one of them in the year 0000, which lies before
  the zero time.
\<close>

definition sample_env :: environment where
  "sample_env =
     \<lparr>dateTimeLayout = ''2006-01-02T15:04:05Z'',
      Parse = (\<lambda>layout v.
         if v = ''2024-01-01T00:00:00Z'' then Inr 63839664000
         else if v = ''0000-06-01T00:00:00Z'' then Inr (- 18489600)
         else Inl (''parsing time '' @ v)),
      Format = (\<lambda>layout t.
         if t = 63839664000 then ''2024-01-01T00:00:00Z''
         else if t = - 18489600 then ''0000-06-01T00:00:00Z''
         else if t = 0 then ''0001-01-01T00:00:00Z''
         else ''2025-03-09T12:00:00Z''),
      Now = 63877104000\<rparr>"

definition empty_world :: world where
  "empty_world = \<lparr>entities = [], calls = []\<rparr>"

section \<open>What the handlers compute\<close>

lemma status_loop_zip:
  "status_loop env (pre @ map fst rs) (length pre) (map snd rs) acc
     = Some (acc @ map (api_record env) rs)"
proof (induction rs arbitrary: pre acc)
  case Nil
  then show ?case by simp
next
  case (Cons r rs)
  have "status_loop env ((pre @ [fst r]) @ map fst rs) (length (pre @ [fst r])) (map snd rs)
          (acc @ [api_record env r]) = Some ((acc @ [api_record env r]) @ map (api_record env) rs)"
    by (rule Cons.IH)
  then show ?case by (simp add: api_record_def Let_def nth_append)
qed

lemma status_loop_all:
  "status_loop env (map fst rs) 0 (map snd rs) [] = Some (map (api_record env) rs)"
  using status_loop_zip [of env "[]" rs "[]"] by simp

lemma GetAll_tolerated:
  "tolerated reply \<Longrightarrow>
   GetAll reply q w =
     ((map fst (run_query q (entities w)), map snd (run_query q (entities w)), reply),
      w\<lparr>calls := calls w @ [GetAllCall q]\<rparr>)"
  by (cases reply; cases "the reply") (simp_all add: GetAll_def tolerated_def Let_def)

lemma GetAll_failed:
  "\<not> isErrFieldMismatch e \<Longrightarrow>
   GetAll (Some e) q w = (([], [], Some e), w\<lparr>calls := calls w @ [GetAllCall q]\<rparr>)"
  by (cases e) (simp_all add: GetAll_def Let_def)

lemma insertStatus_failed:
  "insertStatus env (PutFailed e) (Inr api) w =
     (quota_or_failure e,
      w\<lparr>calls := calls w @ [PutCall (NewIncompleteKey statusDBEntity (Some statusEntityRootKey))
                                  (mapAPItoDBStatus env api new_StatusEntity)]\<rparr>)"
  by (simp add: insertStatus_def Put_def Let_def quota_or_failure_def addPlainTextError_def
        StatusServiceUnavailable_def StatusInternalServerError_def)

lemma insertStatus_assigned:
  "insertStatus env (PutAssigned newid) (Inr api) w =
     (Response 201 (StringEntity (FormatInt10 newid)),
      w\<lparr>calls := calls w @ [PutCall (NewIncompleteKey statusDBEntity (Some statusEntityRootKey))
                                  (mapAPItoDBStatus env api new_StatusEntity)],
        entities := store_entity (status_key newid) (mapAPItoDBStatus env api new_StatusEntity)
                      (entities w)\<rparr>)"
  by (simp add: insertStatus_def Put_def Let_def WriteHeaderAndEntity_def StatusCreated_def
        NewIncompleteKey_def NewKey_def Incomplete_def status_key_def)

lemma insertStatus_unreadable:
  "insertStatus env reply (Inl msg) w = (Response 500 (PlainText msg), w)"
  by (simp add: insertStatus_def addPlainTextError_def StatusInternalServerError_def)

lemma getStatus_rejected:
  "dateFrom_bound env dateString = None \<Longrightarrow>
   \<exists>msg. Parse env RFC3339 dateString = Inl msg \<and>
     getStatus env reply dateString w =
       (Response 400 (PlainText (msg @ '' - Correct format is RFC3339'')), w)"
  by (auto simp: dateFrom_bound_def getStatus_def time_Parse_def addPlainTextError_def
        StatusBadRequest_def split: if_splits sum.splits)

lemma getStatus_tolerated:
  assumes "dateFrom_bound env dateString = Some d" and "tolerated reply"
  shows "getStatus env reply dateString w =
      (Response 200 (ListEntity (map (api_record env) (run_query (all_query d) (entities w)))),
       w\<lparr>calls := calls w @ [GetAllCall (all_query d)]\<rparr>)"
proof -
  have p: "(if dateString \<noteq> '''' then time_Parse env RFC3339 dateString else (zeroTime, None))
             = (d, None)"
    using assms(1) by (auto simp: dateFrom_bound_def time_Parse_def split: if_splits sum.splits)
  have t: "(case reply of None \<Rightarrow> None
            | Some e \<Rightarrow> if isErrFieldMismatch e then None else Some e) = None"
    using assms(2) by (auto simp: tolerated_def split: option.splits)
  show ?thesis
    unfolding getStatus_def p
    by (simp add: GetAll_tolerated [OF assms(2)] all_query_def [symmetric] t status_loop_all
          WriteHeaderAndEntity_def StatusOK_def Let_def)
qed

lemma getStatus_failed:
  assumes "dateFrom_bound env dateString = Some d" and "\<not> isErrFieldMismatch e"
  shows "getStatus env (Some e) dateString w =
      (quota_or_failure e, w\<lparr>calls := calls w @ [GetAllCall (all_query d)]\<rparr>)"
proof -
  have p: "(if dateString \<noteq> '''' then time_Parse env RFC3339 dateString else (zeroTime, None))
             = (d, None)"
    using assms(1) by (auto simp: dateFrom_bound_def time_Parse_def split: if_splits sum.splits)
  show ?thesis
    unfolding getStatus_def p
    by (simp add: GetAll_failed [OF assms(2)] all_query_def [symmetric] assms(2)
          quota_or_failure_def addPlainTextError_def StatusServiceUnavailable_def
          StatusInternalServerError_def Let_def)
qed

lemma getCurrentStatus_failed:
  assumes "\<not> isErrFieldMismatch e"
  shows "getCurrentStatus env (Some e) w =
      (quota_or_failure e, w\<lparr>calls := calls w @ [GetAllCall latest_query]\<rparr>)"
  unfolding getCurrentStatus_def
  by (simp add: GetAll_failed [OF assms] latest_query_def assms
        quota_or_failure_def addPlainTextError_def StatusServiceUnavailable_def
        StatusInternalServerError_def Let_def)

lemma getCurrentStatus_tolerated:
  assumes "tolerated reply"
  shows "getCurrentStatus env reply w =
      (case run_query latest_query (entities w) of
         [] \<Rightarrow> IndexOutOfRange
       | r # rest \<Rightarrow> Response 200 (ListEntity [api_record env r]),
       w\<lparr>calls := calls w @ [GetAllCall latest_query]\<rparr>)"
proof -
  have t: "(case reply of None \<Rightarrow> None
            | Some e \<Rightarrow> if isErrFieldMismatch e then None else Some e) = None"
    using assms by (auto simp: tolerated_def split: option.splits)
  show ?thesis
    unfolding getCurrentStatus_def
    by (simp add: GetAll_tolerated [OF assms] latest_query_def t api_record_def
          WriteHeaderAndEntity_def StatusOK_def Let_def split: list.splits)
qed

lemma run_query_all:
  "run_query (all_query d) (entities w) =
     sort_key (\<lambda>ke. - ChangeDate (snd ke))
       (filter (\<lambda>ke. d \<le> ChangeDate (snd ke)) (status_records w))"
  by (simp add: run_query_def all_query_def Order_ChangeDate_desc_def Filter_ChangeDate_ge_def
        NewQuery_def status_records_def)

lemma run_query_latest:
  "run_query latest_query (entities w) =
     take 1 (sort_key (\<lambda>ke. - ChangeDate (snd ke)) (status_records w))"
  by (simp add: run_query_def latest_query_def Order_ChangeDate_desc_def Limit_def
        NewQuery_def status_records_def)

lemma sorted_desc_sort_key:
  "sorted_wrt (\<lambda>a b. ChangeDate (snd b) \<le> ChangeDate (snd a))
     (sort_key (\<lambda>ke. - ChangeDate (snd ke)) xs)"
  using sorted_sort_key [of "\<lambda>ke. - ChangeDate (snd ke)" xs]
  by (simp add: sorted_map)

lemma in_store_entity: "(k, e) \<in> set (store_entity k e es)"
  by (auto simp: store_entity_def image_iff)

lemma store_entity_fresh:
  "k \<notin> set (map fst es) \<Longrightarrow> store_entity k e es = es @ [(k, e)]"
  by (simp add: store_entity_def)

lemma fresh_id_key: "fresh_id w newid \<Longrightarrow> status_key newid \<notin> set (map fst (entities w))"
  by (force simp: fresh_id_def status_key_def image_iff)

lemma quota_or_failure_code:
  "quota_or_failure e = Response c p \<Longrightarrow> c = 503 \<or> c = 500"
  by (auto simp: quota_or_failure_def split: if_splits)

subsection \<open>The decimal rendering reads back\<close>

lemma digit_value_digit_char: "d < 10 \<Longrightarrow> digit_value (digit_char d) = d"
proof -
  assume "d < 10"
  then have "d \<in> {0, 1, 2, 3, 4, 5, 6, 7, 8, 9}" by auto
  then show ?thesis by (auto simp: digit_value_def digit_char_def)
qed

lemma digit_char_not_minus: "d < 10 \<Longrightarrow> digit_char d \<noteq> CHR ''-''"
proof -
  assume "d < 10"
  then have "d \<in> {0, 1, 2, 3, 4, 5, 6, 7, 8, 9}" by auto
  then show ?thesis by (auto simp: digit_char_def)
qed

lemma decimal_value_snoc:
  "decimal_value (s @ [c]) = 10 * decimal_value s + digit_value c"
  by (simp add: decimal_value_def)

lemma decimal_value_digits10: "decimal_value (digits10 n) = n"
proof (induction n rule: digits10.induct)
  case (1 n)
  show ?case
  proof (cases "n < 10")
    case True
    then show ?thesis
      by (simp add: digits10.simps [of n] decimal_value_def digit_value_digit_char)
  next
    case False
    then have "decimal_value (digits10 n) = 10 * (n div 10) + n mod 10"
      using "1.IH" by (simp add: digits10.simps [of n] decimal_value_snoc digit_value_digit_char)
    then show ?thesis by simp
  qed
qed

lemma digits10_head: "digits10 n \<noteq> [] \<and> hd (digits10 n) \<noteq> CHR ''-''"
proof (induction n rule: digits10.induct)
  case (1 n)
  show ?case
  proof (cases "n < 10")
    case True
    then show ?thesis by (simp add: digits10.simps [of n] digit_char_not_minus)
  next
    case False
    then show ?thesis using "1.IH" by (simp add: digits10.simps [of n])
  qed
qed

lemma ParseInt10_digits10: "ParseInt10 (digits10 n) = int n"
proof -
  obtain c cs where s: "digits10 n = c # cs"
    using digits10_head [of n] by (cases "digits10 n") auto
  then have "c \<noteq> CHR ''-''" using digits10_head [of n] by simp
  then have "ParseInt10 (digits10 n) = int (decimal_value (digits10 n))"
    by (simp add: ParseInt10_def s)
  then show ?thesis by (simp add: decimal_value_digits10)
qed

lemma ParseInt10_FormatInt10: "ParseInt10 (FormatInt10 i) = sint i"
proof (cases "sint i < 0")
  case True
  then show ?thesis
    by (simp add: FormatInt10_def ParseInt10_def decimal_value_digits10)
next
  case False
  then show ?thesis by (simp add: FormatInt10_def ParseInt10_digits10)
qed

subsection \<open>The handlers and the stored entities\<close>

lemma getStatus_entities: "entities (snd (getStatus env reply dateString w)) = entities w"
proof (cases "dateFrom_bound env dateString")
  case None
  from getStatus_rejected [OF this, of reply w] show ?thesis by auto
next
  case (Some d)
  show ?thesis
  proof (cases "tolerated reply")
    case True
    then show ?thesis by (simp add: getStatus_tolerated [OF Some])
  next
    case False
    then obtain e where "reply = Some e" "\<not> isErrFieldMismatch e"
      by (auto simp: tolerated_def split: option.splits)
    then show ?thesis by (simp add: getStatus_failed [OF Some])
  qed
qed

lemma getCurrentStatus_entities: "entities (snd (getCurrentStatus env reply w)) = entities w"
proof (cases "tolerated reply")
  case True
  then show ?thesis by (simp add: getCurrentStatus_tolerated)
next
  case False
  then obtain e where "reply = Some e" "\<not> isErrFieldMismatch e"
    by (auto simp: tolerated_def split: option.splits)
  then show ?thesis by (simp add: getCurrentStatus_failed)
qed

lemma insertStatus_created:
  assumes "fst (insertStatus env reply body w) = Response 201 p"
  shows "\<exists>newid api. reply = PutAssigned newid \<and> body = Inr api"
proof (cases body)
  case (Inl msg)
  then show ?thesis using assms by (simp add: insertStatus_unreadable)
next
  case (Inr api)
  show ?thesis
  proof (cases reply)
    case (PutFailed e)
    then show ?thesis
      using assms Inr by (simp add: insertStatus_failed quota_or_failure_def split: if_splits)
  next
    case (PutAssigned newid)
    then show ?thesis using Inr by simp
  qed
qed

lemma insertStatus_not_created:
  assumes "\<forall>q. fst (insertStatus env reply body w) \<noteq> Response 201 q"
  shows "entities (snd (insertStatus env reply body w)) = entities w"
proof (cases body)
  case (Inl msg)
  then show ?thesis by (simp add: insertStatus_unreadable)
next
  case (Inr api)
  show ?thesis
  proof (cases reply)
    case (PutFailed e)
    then show ?thesis using Inr by (simp add: insertStatus_failed)
  next
    case (PutAssigned newid)
    then show ?thesis using assms Inr by (simp add: insertStatus_assigned)
  qed
qed

subsection \<open>The order of the answers\<close>

lemma sort_key_desc_Cons_max:
  assumes "sort_key (\<lambda>ke. - ChangeDate (snd ke)) xs = r # rest"
  shows "r \<in> set xs \<and> (\<forall>ke \<in> set xs. ChangeDate (snd ke) \<le> ChangeDate (snd r))"
proof -
  let ?s = "sort_key (\<lambda>ke. - ChangeDate (snd ke)) xs"
  have m: "set ?s = set xs" by simp
  have "sorted_wrt (\<lambda>a b. ChangeDate (snd b) \<le> ChangeDate (snd a)) (r # rest)"
    using sorted_desc_sort_key [of xs] assms by simp
  then have "\<forall>ke \<in> set (r # rest). ChangeDate (snd ke) \<le> ChangeDate (snd r)"
    by auto
  then show ?thesis using m assms by auto
qed

lemma sort_key_nonempty:
  "xs \<noteq> [] \<Longrightarrow> \<exists>r rest. sort_key f xs = r # rest"
proof -
  assume "xs \<noteq> []"
  then have "length (sort_key f xs) \<noteq> 0" by simp
  then show ?thesis by (cases "sort_key f xs") auto
qed

lemma api_record_fields:
  "api_record env (k, e) =
     \<lparr>json_id = IntID k, json_status = Status e,
      json_changeDate = Format env (dateTimeLayout env) (ChangeDate e)\<rparr>"
  by (simp add: api_record_def mapDBtoAPIStatus_def new_StatusEntityAPIv1_def)

subsection \<open>A submitted record in the answers\<close>

lemma json_id_api_record: "json_id (api_record env ke) = IntID (fst ke)"
  by (simp add: api_record_def)

lemma api_record_Now: "api_record (env\<lparr>Now := n\<rparr>) = api_record env"
  by (rule ext) (simp add: api_record_def mapDBtoAPIStatus_def)

lemma dateFrom_bound_Now: "dateFrom_bound (env\<lparr>Now := n\<rparr>) dateString = dateFrom_bound env dateString"
  by (simp add: dateFrom_bound_def)

lemma filter_id_fresh:
  assumes "newid \<notin> set (map (\<lambda>ke. IntID (fst ke)) es)"
  shows "filter (\<lambda>ke. IntID (fst ke) = newid) es = []"
  using assms by (induction es) auto

lemma mapAPItoDBStatus_parsed:
  assumes "json_changeDate api \<noteq> ''''"
      and "Parse env (dateTimeLayout env) (json_changeDate api) = Inr t"
  shows "mapAPItoDBStatus env api new_StatusEntity = \<lparr>Status = json_status api, ChangeDate = t\<rparr>"
  using assms by (simp add: mapAPItoDBStatus_def new_StatusEntity_def time_Parse_def)

section \<open>Properties of the service\<close>

text \<open>
  C1. Let a submit carry a status and a non-empty \<open>changeDate\<close> that parses in the
  shared layout to the instant \<open>t\<close>, and let the backend assign it an id. The submit
  is answered with 201 and that id in decimal. A later \<^verbatim>\<open>getStatus\<close> on a world with
  the entities the submit left, whose bound (the parsed \<open>dateFrom\<close>, or the zero time
  when it is absent) is at or before \<open>t\<close> and whose query does not fail, answers 200
  with a list that holds the record with the assigned id, the submitted status and
  \<open>t\<close> formatted in the shared layout; when the id was fresh, this is the only record
  of the answer with that id.
\<close>

theorem submit_then_getStatus:
  assumes "json_changeDate api \<noteq> ''''"
      and "Parse env (dateTimeLayout env) (json_changeDate api) = Inr t"
      and "entities w2 = entities (snd (insertStatus env (PutAssigned newid) (Inr api) w))"
      and "dateFrom_bound env dateString = Some d" and "d \<le> t"
      and "tolerated reply"
  shows "fst (insertStatus env (PutAssigned newid) (Inr api) w)
           = Response 201 (StringEntity (FormatInt10 newid))
         \<and> (\<exists>rs. fst (getStatus (env\<lparr>Now := later\<rparr>) reply dateString w2)
                    = Response 200 (ListEntity rs)
               \<and> \<lparr>json_id = newid, json_status = json_status api,
                    json_changeDate = Format env (dateTimeLayout env) t\<rparr> \<in> set rs
               \<and> (fresh_id w newid \<longrightarrow>
                    filter (\<lambda>r. json_id r = newid) rs
                      = [\<lparr>json_id = newid, json_status = json_status api,
                           json_changeDate = Format env (dateTimeLayout env) t\<rparr>]))"
proof -
  let ?e = "\<lparr>Status = json_status api, ChangeDate = t\<rparr>"
  let ?k = "status_key newid"
  let ?r = "\<lparr>json_id = newid, json_status = json_status api,
             json_changeDate = Format env (dateTimeLayout env) t\<rparr>"
  let ?f = "\<lambda>ke. - ChangeDate (snd ke)"
  let ?Q = "\<lambda>ke. d \<le> ChangeDate (snd ke)"
  let ?P = "\<lambda>ke. IntID (fst ke) = newid"
  let ?ans = "run_query (all_query d) (entities w2)"
  have m: "mapAPItoDBStatus env api new_StatusEntity = ?e"
    by (rule mapAPItoDBStatus_parsed [OF assms(1,2)])
  have ents: "entities w2 = store_entity ?k ?e (entities w)"
    using assms(3) by (simp add: insertStatus_assigned m)
  have r: "api_record env (?k, ?e) = ?r"
    by (simp add: api_record_fields status_key_def)
  have kind: "Kind (fst (?k, ?e)) = statusDBEntity"
    by (simp add: status_key_def)
  have created: "fst (insertStatus env (PutAssigned newid) (Inr api) w)
           = Response 201 (StringEntity (FormatInt10 newid))"
    by (simp add: insertStatus_assigned)
  have answer: "fst (getStatus (env\<lparr>Now := later\<rparr>) reply dateString w2)
                  = Response 200 (ListEntity (map (api_record env) ?ans))"
    using getStatus_tolerated [of "env\<lparr>Now := later\<rparr>" dateString d reply w2] assms(4,6)
    by (simp add: dateFrom_bound_Now api_record_Now)
  have ans: "?ans = sort_key ?f (filter ?Q (status_records w2))"
    by (rule run_query_all)
  have "(?k, ?e) \<in> set (entities w2)"
    by (simp add: ents in_store_entity)
  then have "(?k, ?e) \<in> set (status_records w2)"
    using kind by (simp add: status_records_def)
  then have "(?k, ?e) \<in> set ?ans"
    using assms(5) by (simp add: ans)
  then have "api_record env (?k, ?e) \<in> set (map (api_record env) ?ans)"
    by simp
  then have member: "?r \<in> set (map (api_record env) ?ans)"
    by (simp only: r)
  have only: "filter (\<lambda>r. json_id r = newid) (map (api_record env) ?ans) = [?r]"
    if fr: "fresh_id w newid"
  proof -
    have e2: "entities w2 = entities w @ [(?k, ?e)]"
      by (simp add: ents store_entity_fresh [OF fresh_id_key [OF fr]])
    have none: "filter ?P (entities w) = []"
      using fr by (simp add: fresh_id_def filter_id_fresh)
    have "filter ?P (entities w2) = [(?k, ?e)]"
      by (simp add: e2 none status_key_def)
    moreover have "filter ?P (filter ?Q (status_records w2))
            = filter ?Q (filter (\<lambda>ke. Kind (fst ke) = statusDBEntity) (filter ?P (entities w2)))"
      unfolding status_records_def filter_filter by (rule filter_cong) auto
    ultimately have "filter ?P (filter ?Q (status_records w2)) = [(?k, ?e)]"
      using assms(5) kind by simp
    then have "filter ?P ?ans = [(?k, ?e)]"
      by (simp add: ans filter_sort)
    moreover have "filter (\<lambda>r. json_id r = newid) (map (api_record env) ?ans)
            = map (api_record env) (filter ?P ?ans)"
      by (simp add: filter_map o_def json_id_api_record)
    ultimately show ?thesis by (simp add: r)
  qed
  show ?thesis
    using created answer member only by blast
qed

theorem submit_then_getStatus_witness:
  "json_changeDate \<lparr>json_id = 0, json_status = 300, json_changeDate = ''2024-01-01T00:00:00Z''\<rparr> \<noteq> ''''
   \<and> Parse sample_env (dateTimeLayout sample_env) ''2024-01-01T00:00:00Z'' = Inr 63839664000
   \<and> dateFrom_bound sample_env '''' = Some 0 \<and> (0::int) \<le> 63839664000
   \<and> tolerated None
   \<and> fresh_id \<lparr>entities = [(status_key 7, \<lparr>Status = 100, ChangeDate = 63877104000\<rparr>)], calls = []\<rparr> 8
   \<and> insertStatus sample_env (PutAssigned 8)
        (Inr \<lparr>json_id = 0, json_status = 300, json_changeDate = ''2024-01-01T00:00:00Z''\<rparr>)
        \<lparr>entities = [(status_key 7, \<lparr>Status = 100, ChangeDate = 63877104000\<rparr>)], calls = []\<rparr>
      = (Response 201 (StringEntity ''8''),
         \<lparr>entities = [(status_key 7, \<lparr>Status = 100, ChangeDate = 63877104000\<rparr>),
                       (status_key 8, \<lparr>Status = 300, ChangeDate = 63839664000\<rparr>)],
          calls = [PutCall (NewIncompleteKey statusDBEntity (Some statusEntityRootKey))
                     \<lparr>Status = 300, ChangeDate = 63839664000\<rparr>]\<rparr>)
   \<and> fst (getStatus (sample_env\<lparr>Now := 63877104060\<rparr>) None ''''
        \<lparr>entities = [(status_key 7, \<lparr>Status = 100, ChangeDate = 63877104000\<rparr>),
                      (status_key 8, \<lparr>Status = 300, ChangeDate = 63839664000\<rparr>)],
         calls = []\<rparr>)
      = Response 200 (ListEntity
          [\<lparr>json_id = 7, json_status = 100, json_changeDate = ''2025-03-09T12:00:00Z''\<rparr>,
           \<lparr>json_id = 8, json_status = 300, json_changeDate = ''2024-01-01T00:00:00Z''\<rparr>])"
proof -
  let ?api = "\<lparr>json_id = 0, json_status = 300, json_changeDate = ''2024-01-01T00:00:00Z''\<rparr>"
  let ?w = "\<lparr>entities = [(status_key 7, \<lparr>Status = 100, ChangeDate = 63877104000\<rparr>)], calls = []\<rparr>"
  let ?w2 = "\<lparr>entities = [(status_key 7, \<lparr>Status = 100, ChangeDate = 63877104000\<rparr>),
                      (status_key 8, \<lparr>Status = 300, ChangeDate = 63839664000\<rparr>)],
         calls = []\<rparr>"
  have h1: "json_changeDate ?api \<noteq> ''''" by simp
  have h2: "Parse sample_env (dateTimeLayout sample_env) (json_changeDate ?api) = Inr 63839664000"
    by (simp add: sample_env_def)
  have ins: "insertStatus sample_env (PutAssigned 8) (Inr ?api) ?w
      = (Response 201 (StringEntity ''8''),
         \<lparr>entities = [(status_key 7, \<lparr>Status = 100, ChangeDate = 63877104000\<rparr>),
                       (status_key 8, \<lparr>Status = 300, ChangeDate = 63839664000\<rparr>)],
          calls = [PutCall (NewIncompleteKey statusDBEntity (Some statusEntityRootKey))
                     \<lparr>Status = 300, ChangeDate = 63839664000\<rparr>]\<rparr>)"
    by (simp add: insertStatus_assigned mapAPItoDBStatus_parsed [OF h1 h2] store_entity_def
          status_key_def FormatInt10_def digits10.simps digit_char_def)
  have h3: "entities ?w2 = entities (snd (insertStatus sample_env (PutAssigned 8) (Inr ?api) ?w))"
    by (simp add: ins)
  have h4: "dateFrom_bound sample_env '''' = Some 0"
    by (simp add: dateFrom_bound_def zeroTime_def)
  have h4': "dateFrom_bound (sample_env\<lparr>Now := 63877104060\<rparr>) '''' = Some 0"
    by (simp add: dateFrom_bound_def zeroTime_def)
  have h5: "(0::int) \<le> 63839664000" by simp
  have h6: "tolerated None" by (simp add: tolerated_def)
  have h7: "fresh_id ?w 8" by (simp add: fresh_id_def status_key_def)
  have q: "fst (getStatus (sample_env\<lparr>Now := 63877104060\<rparr>) None '''' ?w2)
      = Response 200 (ListEntity
          [\<lparr>json_id = 7, json_status = 100, json_changeDate = ''2025-03-09T12:00:00Z''\<rparr>,
           \<lparr>json_id = 8, json_status = 300, json_changeDate = ''2024-01-01T00:00:00Z''\<rparr>])"
    unfolding getStatus_tolerated [OF h4' h6]
    by (simp add: status_key_def run_query_def all_query_def
          Order_ChangeDate_desc_def Filter_ChangeDate_ge_def NewQuery_def
          api_record_def mapDBtoAPIStatus_def new_StatusEntityAPIv1_def sample_env_def)
  from submit_then_getStatus [OF h1 h2 h3 h4 h5 h6, of 63877104060]
  have c: "fst (insertStatus sample_env (PutAssigned 8) (Inr ?api) ?w)
             = Response 201 (StringEntity (FormatInt10 8))"
    by (rule conjunct1)
  have h2': "Parse sample_env (dateTimeLayout sample_env) ''2024-01-01T00:00:00Z'' = Inr 63839664000"
    using h2 by simp
  show ?thesis
    using c by (simp only: h1 h2' h4 h5 h6 h7 ins q simp_thms)
qed



text \<open>
  C3. A submit whose \<open>changeDate\<close> is the empty string (an absent field decodes to the
  empty string) hands the datastore a record whose \<open>ChangeDate\<close> is the reading of the
  clock taken in this request, whatever the backend then replies; when the backend
  assigns an id the record is stored with that date and the answer is 201. The date is
  not the zero time unless the clock itself reads the zero time. (The time that passes
  between the reading of the clock and the write is outside the model.)
\<close>

theorem insertStatus_default_changeDate:
  assumes "json_changeDate api = ''''"
  shows "fst (insertStatus env (PutAssigned newid) (Inr api) w)
           = Response 201 (StringEntity (FormatInt10 newid))
         \<and> (status_key newid, \<lparr>Status = json_status api, ChangeDate = Now env\<rparr>)
             \<in> set (entities (snd (insertStatus env (PutAssigned newid) (Inr api) w)))
         \<and> (\<exists>key. last (calls (snd (insertStatus env reply (Inr api) w)))
                = PutCall key \<lparr>Status = json_status api, ChangeDate = Now env\<rparr>)
         \<and> (Now env \<noteq> zeroTime \<longrightarrow>
              ChangeDate (mapAPItoDBStatus env api new_StatusEntity) \<noteq> zeroTime)"
proof -
  have m: "mapAPItoDBStatus env api new_StatusEntity
             = \<lparr>Status = json_status api, ChangeDate = Now env\<rparr>"
    using assms by (simp add: mapAPItoDBStatus_def new_StatusEntity_def time_Now_def)
  have c: "\<exists>key. last (calls (snd (insertStatus env reply (Inr api) w)))
                = PutCall key \<lparr>Status = json_status api, ChangeDate = Now env\<rparr>"
    by (cases reply) (simp_all add: insertStatus_failed insertStatus_assigned m)
  show ?thesis
    using c by (simp add: insertStatus_assigned m in_store_entity)
qed

theorem insertStatus_default_changeDate_witness:
  "json_changeDate \<lparr>json_id = 0, json_status = 100, json_changeDate = ''''\<rparr> = ''''
   \<and> Now sample_env \<noteq> zeroTime
   \<and> snd (insertStatus sample_env (PutAssigned 7)
        (Inr \<lparr>json_id = 0, json_status = 100, json_changeDate = ''''\<rparr>) empty_world)
     = \<lparr>entities = [(status_key 7, \<lparr>Status = 100, ChangeDate = 63877104000\<rparr>)],
        calls = [PutCall (Key ''statusentity'' '''' 0 (Some (Key ''statusentity'' ''statusroot'' 0 None)))
                   \<lparr>Status = 100, ChangeDate = 63877104000\<rparr>]\<rparr>
   \<and> (status_key 7, \<lparr>Status = 100, ChangeDate = Now sample_env\<rparr>)
        \<in> set (entities (snd (insertStatus sample_env (PutAssigned 7)
              (Inr \<lparr>json_id = 0, json_status = 100, json_changeDate = ''''\<rparr>) empty_world)))
   \<and> ChangeDate (mapAPItoDBStatus sample_env
          \<lparr>json_id = 0, json_status = 100, json_changeDate = ''''\<rparr> new_StatusEntity) \<noteq> zeroTime"
  using insertStatus_default_changeDate
          [of "\<lparr>json_id = 0, json_status = 100, json_changeDate = ''''\<rparr>" sample_env 7 empty_world]
  by (simp add: insertStatus_assigned sample_env_def empty_world_def store_entity_def
        mapAPItoDBStatus_def new_StatusEntity_def time_Now_def NewIncompleteKey_def NewKey_def
        statusDBEntity_def statusEntityRootKey_def statusDBEntityRootKey_def zeroTime_def)

text \<open>
  C4. A submit whose \<open>changeDate\<close> is not empty and does not parse in the shared layout
  is not rejected: the parse error is dropped, the record handed to the datastore has
  the zero time as its \<open>ChangeDate\<close> (not the reading of the clock), and when the
  backend assigns an id the record is stored so and the answer is 201.
\<close>

theorem insertStatus_unparseable_changeDate:
  assumes "json_changeDate api \<noteq> ''''"
      and "Parse env (dateTimeLayout env) (json_changeDate api) = Inl msg"
  shows "fst (insertStatus env (PutAssigned newid) (Inr api) w)
           = Response 201 (StringEntity (FormatInt10 newid))
         \<and> (status_key newid, \<lparr>Status = json_status api, ChangeDate = zeroTime\<rparr>)
             \<in> set (entities (snd (insertStatus env (PutAssigned newid) (Inr api) w)))
         \<and> (\<exists>key. last (calls (snd (insertStatus env reply (Inr api) w)))
                = PutCall key \<lparr>Status = json_status api, ChangeDate = zeroTime\<rparr>)"
proof -
  have m: "mapAPItoDBStatus env api new_StatusEntity
             = \<lparr>Status = json_status api, ChangeDate = zeroTime\<rparr>"
    using assms by (simp add: mapAPItoDBStatus_def new_StatusEntity_def time_Parse_def)
  have c: "\<exists>key. last (calls (snd (insertStatus env reply (Inr api) w)))
                = PutCall key \<lparr>Status = json_status api, ChangeDate = zeroTime\<rparr>"
    by (cases reply) (simp_all add: insertStatus_failed insertStatus_assigned m)
  show ?thesis
    using c by (simp add: insertStatus_assigned m in_store_entity)
qed

theorem insertStatus_unparseable_changeDate_witness:
  "json_changeDate \<lparr>json_id = 0, json_status = 200, json_changeDate = ''yesterday''\<rparr> \<noteq> ''''
   \<and> Parse sample_env (dateTimeLayout sample_env) ''yesterday'' = Inl ''parsing time yesterday''
   \<and> Now sample_env \<noteq> zeroTime
   \<and> insertStatus sample_env (PutAssigned 7)
        (Inr \<lparr>json_id = 0, json_status = 200, json_changeDate = ''yesterday''\<rparr>) empty_world
     = (Response 201 (StringEntity ''7''),
        \<lparr>entities = [(status_key 7, \<lparr>Status = 200, ChangeDate = 0\<rparr>)],
         calls = [PutCall (Key ''statusentity'' '''' 0 (Some (Key ''statusentity'' ''statusroot'' 0 None)))
                   \<lparr>Status = 200, ChangeDate = 0\<rparr>]\<rparr>)
   \<and> (status_key 7, \<lparr>Status = 200, ChangeDate = zeroTime\<rparr>)
        \<in> set (entities (snd (insertStatus sample_env (PutAssigned 7)
              (Inr \<lparr>json_id = 0, json_status = 200, json_changeDate = ''yesterday''\<rparr>) empty_world)))"
  using insertStatus_unparseable_changeDate
          [of "\<lparr>json_id = 0, json_status = 200, json_changeDate = ''yesterday''\<rparr>" sample_env
              "''parsing time yesterday''" 7 empty_world]
  by (simp add: insertStatus_assigned sample_env_def empty_world_def store_entity_def
        mapAPItoDBStatus_def new_StatusEntity_def time_Parse_def NewIncompleteKey_def NewKey_def
        statusDBEntity_def statusEntityRootKey_def statusDBEntityRootKey_def zeroTime_def
        FormatInt10_def digits10.simps digit_char_def)

text \<open>
  C5. On a store without status records \<^verbatim>\<open>getCurrentStatus\<close> has no result: when the
  query itself goes through (no error, or a tolerated field mismatch) the handler reads
  \<^verbatim>\<open>statusOnDBList[0]\<close> of an empty list and panics with an index out of range. Whatever
  the backend replies, the outcome is neither a 200 (so no empty list either) nor a
  404.
\<close>

theorem getCurrentStatus_empty_store:
  assumes "status_records w = []"
  shows "(tolerated reply \<longrightarrow> fst (getCurrentStatus env reply w) = IndexOutOfRange)
         \<and> fst (getCurrentStatus env reply w) \<noteq> Response 200 p
         \<and> fst (getCurrentStatus env reply w) \<noteq> Response 404 p"
proof (cases "tolerated reply")
  case True
  then show ?thesis
    using assms by (simp add: getCurrentStatus_tolerated run_query_latest)
next
  case False
  then obtain e where e: "reply = Some e" "\<not> isErrFieldMismatch e"
    by (auto simp: tolerated_def split: option.splits)
  have "fst (getCurrentStatus env reply w) = quota_or_failure e"
    using e by (simp add: getCurrentStatus_failed)
  then show ?thesis
    using False quota_or_failure_code [of e] by (auto simp: quota_or_failure_def)
qed

theorem getCurrentStatus_empty_store_witness:
  "status_records empty_world = []
   \<and> tolerated None
   \<and> getCurrentStatus sample_env None empty_world
       = (IndexOutOfRange, \<lparr>entities = [], calls = [GetAllCall latest_query]\<rparr>)"
  using getCurrentStatus_empty_store [of empty_world None sample_env]
  by (simp add: status_records_def empty_world_def tolerated_def getCurrentStatus_tolerated
        run_query_latest)

text \<open>
  C6. A storage error is answered by every handler in the same way: 503 with the fixed
  text \<^verbatim>\<open>503 - Over Quota\<close> when the error is the quota error, 500 with the error's own
  text otherwise. For the two read handlers this is for the errors that are not a field
  mismatch, and for \<^verbatim>\<open>getStatus\<close> for a \<open>dateFrom\<close> that is absent or parses (the
  query is not reached otherwise). The outcome is a response, the stored entities stay
  as they were, and the log grows by exactly the one failed call: nothing is retried.
\<close>

theorem storage_errors:
  assumes "\<not> isErrFieldMismatch e" and "dateFrom_bound env dateString = Some d"
  shows "insertStatus env (PutFailed e0) (Inr api) w =
           (if IsOverQuota e0 then Response 503 (PlainText ''503 - Over Quota'')
            else Response 500 (PlainText (Error e0)),
            w\<lparr>calls := calls w @
                 [PutCall (NewIncompleteKey statusDBEntity (Some statusEntityRootKey))
                    (mapAPItoDBStatus env api new_StatusEntity)]\<rparr>)
         \<and> getStatus env (Some e) dateString w =
           (if IsOverQuota e then Response 503 (PlainText ''503 - Over Quota'')
            else Response 500 (PlainText (Error e)),
            w\<lparr>calls := calls w @ [GetAllCall (all_query d)]\<rparr>)
         \<and> getCurrentStatus env (Some e) w =
           (if IsOverQuota e then Response 503 (PlainText ''503 - Over Quota'')
            else Response 500 (PlainText (Error e)),
            w\<lparr>calls := calls w @ [GetAllCall latest_query]\<rparr>)"
  using assms
  by (simp add: insertStatus_failed getStatus_failed getCurrentStatus_failed quota_or_failure_def)

theorem storage_errors_witness:
  "\<not> isErrFieldMismatch (OverQuota ''quota'')
   \<and> dateFrom_bound sample_env ''2024-01-01T00:00:00Z'' = Some 63839664000
   \<and> fst (insertStatus sample_env (PutFailed (OtherError ''datastore: timeout''))
        (Inr \<lparr>json_id = 0, json_status = 100, json_changeDate = ''''\<rparr>) empty_world)
       = Response 500 (PlainText ''datastore: timeout'')
   \<and> entities (snd (insertStatus sample_env (PutFailed (OtherError ''datastore: timeout''))
        (Inr \<lparr>json_id = 0, json_status = 100, json_changeDate = ''''\<rparr>) empty_world)) = []
   \<and> getStatus sample_env (Some (OverQuota ''quota'')) ''2024-01-01T00:00:00Z'' empty_world
       = (Response 503 (PlainText ''503 - Over Quota''),
          \<lparr>entities = [], calls = [GetAllCall (all_query 63839664000)]\<rparr>)
   \<and> getCurrentStatus sample_env (Some (OverQuota ''quota'')) empty_world
       = (Response 503 (PlainText ''503 - Over Quota''),
          \<lparr>entities = [], calls = [GetAllCall latest_query]\<rparr>)"
  using storage_errors [of "OverQuota ''quota''" sample_env "''2024-01-01T00:00:00Z''" 63839664000
          "OtherError ''datastore: timeout''"
          "\<lparr>json_id = 0, json_status = 100, json_changeDate = ''''\<rparr>" empty_world]
  by (simp add: dateFrom_bound_def sample_env_def empty_world_def)



text \<open>
  C8 as it is stated does not hold: a record whose date lies before the zero time
  (here one submitted with a date in the year 0000) is the answer of
  \<^verbatim>\<open>getCurrentStatus\<close>, which does not filter, and is left out by \<^verbatim>\<open>getStatus\<close>
  without \<open>dateFrom\<close>, which filters from the zero time on: the store is not empty and
  the unfiltered answer has no first element.
\<close>

theorem getCurrentStatus_first_of_getStatus_counterexample:
  "status_records (snd (insertStatus sample_env (PutAssigned 1)
       (Inr \<lparr>json_id = 0, json_status = 300, json_changeDate = ''0000-06-01T00:00:00Z''\<rparr>)
       empty_world)) \<noteq> []
   \<and> fst (getCurrentStatus sample_env None (snd (insertStatus sample_env (PutAssigned 1)
       (Inr \<lparr>json_id = 0, json_status = 300, json_changeDate = ''0000-06-01T00:00:00Z''\<rparr>)
       empty_world)))
      = Response 200 (ListEntity
          [\<lparr>json_id = 1, json_status = 300, json_changeDate = ''0000-06-01T00:00:00Z''\<rparr>])
   \<and> fst (getStatus sample_env None '''' (snd (insertStatus sample_env (PutAssigned 1)
       (Inr \<lparr>json_id = 0, json_status = 300, json_changeDate = ''0000-06-01T00:00:00Z''\<rparr>)
       empty_world)))
      = Response 200 (ListEntity [])"
proof -
  have t: "tolerated None" by (simp add: tolerated_def)
  have b: "dateFrom_bound sample_env '''' = Some 0"
    by (simp add: dateFrom_bound_def zeroTime_def)
  have w: "snd (insertStatus sample_env (PutAssigned 1)
       (Inr \<lparr>json_id = 0, json_status = 300, json_changeDate = ''0000-06-01T00:00:00Z''\<rparr>)
       empty_world)
     = \<lparr>entities = [(status_key 1, \<lparr>Status = 300, ChangeDate = - 18489600\<rparr>)],
        calls = [PutCall (NewIncompleteKey statusDBEntity (Some statusEntityRootKey))
                   \<lparr>Status = 300, ChangeDate = - 18489600\<rparr>]\<rparr>"
    by (simp add: insertStatus_assigned empty_world_def store_entity_def mapAPItoDBStatus_def
          new_StatusEntity_def time_Parse_def sample_env_def)
  show ?thesis
    unfolding w getCurrentStatus_tolerated [OF t] getStatus_tolerated [OF b t]
    by (simp add: status_records_def status_key_def run_query_def all_query_def latest_query_def
          Order_ChangeDate_desc_def Filter_ChangeDate_ge_def Limit_def NewQuery_def
          api_record_def mapDBtoAPIStatus_def new_StatusEntityAPIv1_def sample_env_def)
qed

text \<open>
  C8, amended. When there is a status record and the query does not fail,
  \<^verbatim>\<open>getCurrentStatus\<close> answers 200 with exactly one wire record, that of a status record
  whose \<open>ChangeDate\<close> is the greatest; and when some status record is dated at or after
  the zero time, this record is the first of the answer of \<^verbatim>\<open>getStatus\<close> without
  \<open>dateFrom\<close>.
\<close>

theorem getCurrentStatus_latest:
  assumes "tolerated reply" and "tolerated reply'"
  shows "(status_records w \<noteq> [] \<longrightarrow>
            (\<exists>r \<in> set (status_records w).
               fst (getCurrentStatus env reply w) = Response 200 (ListEntity [api_record env r])
               \<and> (\<forall>ke \<in> set (status_records w). ChangeDate (snd ke) \<le> ChangeDate (snd r))))
         \<and> ((\<exists>ke \<in> set (status_records w). zeroTime \<le> ChangeDate (snd ke)) \<longrightarrow>
            (\<exists>r rest.
               fst (getCurrentStatus env reply w) = Response 200 (ListEntity [api_record env r])
               \<and> fst (getStatus env reply' '''' w)
                   = Response 200 (ListEntity (api_record env r # rest))))"
proof -
  let ?f = "\<lambda>ke. - ChangeDate (snd ke)"
  let ?P = "\<lambda>ke. zeroTime \<le> ChangeDate (snd ke)"
  have b: "dateFrom_bound env '''' = Some zeroTime" by (simp add: dateFrom_bound_def)
  have first: "\<exists>r \<in> set (status_records w).
               fst (getCurrentStatus env reply w) = Response 200 (ListEntity [api_record env r])
               \<and> (\<forall>ke \<in> set (status_records w). ChangeDate (snd ke) \<le> ChangeDate (snd r))"
    if ne: "status_records w \<noteq> []"
  proof -
    obtain r rest where s: "sort_key ?f (status_records w) = r # rest"
      using sort_key_nonempty [OF ne] by blast
    have "fst (getCurrentStatus env reply w) = Response 200 (ListEntity [api_record env r])"
      by (simp add: getCurrentStatus_tolerated [OF assms(1)] run_query_latest s)
    then show ?thesis using sort_key_desc_Cons_max [OF s] by blast
  qed
  have second: "\<exists>r rest.
               fst (getCurrentStatus env reply w) = Response 200 (ListEntity [api_record env r])
               \<and> fst (getStatus env reply' '''' w)
                   = Response 200 (ListEntity (api_record env r # rest))"
    if ex: "\<exists>ke \<in> set (status_records w). zeroTime \<le> ChangeDate (snd ke)"
  proof -
    from ex have ne: "status_records w \<noteq> []" by auto
    obtain r rest where s: "sort_key ?f (status_records w) = r # rest"
      using sort_key_nonempty [OF ne] by blast
    have cur: "fst (getCurrentStatus env reply w) = Response 200 (ListEntity [api_record env r])"
      by (simp add: getCurrentStatus_tolerated [OF assms(1)] run_query_latest s)
    have "?P r" using sort_key_desc_Cons_max [OF s] ex by force
    moreover have "run_query (all_query zeroTime) (entities w)
            = filter ?P (sort_key ?f (status_records w))"
      by (simp add: run_query_all filter_sort)
    ultimately have "run_query (all_query zeroTime) (entities w) = r # filter ?P rest"
      by (simp add: s)
    then have "fst (getStatus env reply' '''' w)
        = Response 200 (ListEntity (api_record env r # map (api_record env) (filter ?P rest)))"
      by (simp add: getStatus_tolerated [OF b assms(2)])
    then show ?thesis using cur by blast
  qed
  show ?thesis using first second by blast
qed

theorem getCurrentStatus_latest_witness:
  "tolerated None \<and> tolerated (Some (ErrFieldMismatch ''m''))
   \<and> (\<exists>ke \<in> set (status_records
        \<lparr>entities = [(status_key 1, \<lparr>Status = 300, ChangeDate = 63839664000\<rparr>),
                      (status_key 2, \<lparr>Status = 100, ChangeDate = 63877104000\<rparr>)], calls = []\<rparr>).
          zeroTime \<le> ChangeDate (snd ke))
   \<and> fst (getCurrentStatus sample_env None
        \<lparr>entities = [(status_key 1, \<lparr>Status = 300, ChangeDate = 63839664000\<rparr>),
                      (status_key 2, \<lparr>Status = 100, ChangeDate = 63877104000\<rparr>)], calls = []\<rparr>)
      = Response 200 (ListEntity
          [\<lparr>json_id = 2, json_status = 100, json_changeDate = ''2025-03-09T12:00:00Z''\<rparr>])
   \<and> fst (getStatus sample_env (Some (ErrFieldMismatch ''m'')) ''''
        \<lparr>entities = [(status_key 1, \<lparr>Status = 300, ChangeDate = 63839664000\<rparr>),
                      (status_key 2, \<lparr>Status = 100, ChangeDate = 63877104000\<rparr>)], calls = []\<rparr>)
      = Response 200 (ListEntity
          [\<lparr>json_id = 2, json_status = 100, json_changeDate = ''2025-03-09T12:00:00Z''\<rparr>,
           \<lparr>json_id = 1, json_status = 300, json_changeDate = ''2024-01-01T00:00:00Z''\<rparr>])"
proof -
  let ?w = "\<lparr>entities = [(status_key 1, \<lparr>Status = 300, ChangeDate = 63839664000\<rparr>),
                      (status_key 2, \<lparr>Status = 100, ChangeDate = 63877104000\<rparr>)], calls = []\<rparr>"
  have t: "tolerated None" "tolerated (Some (ErrFieldMismatch ''m''))"
    by (simp_all add: tolerated_def)
  have b: "dateFrom_bound sample_env '''' = Some 0"
    by (simp add: dateFrom_bound_def zeroTime_def)
  have c1: "\<exists>ke \<in> set (status_records ?w). zeroTime \<le> ChangeDate (snd ke)"
    by (simp add: status_records_def status_key_def zeroTime_def)
  have c2: "fst (getCurrentStatus sample_env None ?w)
      = Response 200 (ListEntity
          [\<lparr>json_id = 2, json_status = 100, json_changeDate = ''2025-03-09T12:00:00Z''\<rparr>])"
    unfolding getCurrentStatus_tolerated [OF t(1)]
    by (simp add: status_key_def run_query_def latest_query_def
          Order_ChangeDate_desc_def Limit_def NewQuery_def
          api_record_def mapDBtoAPIStatus_def new_StatusEntityAPIv1_def sample_env_def)
  have c3: "fst (getStatus sample_env (Some (ErrFieldMismatch ''m'')) '''' ?w)
      = Response 200 (ListEntity
          [\<lparr>json_id = 2, json_status = 100, json_changeDate = ''2025-03-09T12:00:00Z''\<rparr>,
           \<lparr>json_id = 1, json_status = 300, json_changeDate = ''2024-01-01T00:00:00Z''\<rparr>])"
    unfolding getStatus_tolerated [OF b t(2)]
    by (simp add: status_key_def run_query_def all_query_def
          Order_ChangeDate_desc_def Filter_ChangeDate_ge_def NewQuery_def
          api_record_def mapDBtoAPIStatus_def new_StatusEntityAPIv1_def sample_env_def)
  from getCurrentStatus_latest [OF t, of ?w sample_env] c1
  have "\<exists>r rest.
          fst (getCurrentStatus sample_env None ?w) = Response 200 (ListEntity [api_record sample_env r])
          \<and> fst (getStatus sample_env (Some (ErrFieldMismatch ''m'')) '''' ?w)
              = Response 200 (ListEntity (api_record sample_env r # rest))"
    by blast
  then show ?thesis using t c1 c2 c3 by blast
qed

text \<open>
  C9. A submit that is answered with 201 was given an id by the backend; its body is
  that id in decimal (reading the digits back gives the id), and when the id is fresh,
  as the datastore promises, the stored entities are the old ones, unchanged and in
  place, followed by the one new record, and ids stay distinct. A submit that is not
  answered with 201 and the two read handlers leave the stored entities as they were.
\<close>

theorem insertStatus_appends:
  "(fst (insertStatus env reply body w) = Response 201 p
      \<and> (\<forall>newid. reply = PutAssigned newid \<longrightarrow> fresh_id w newid) \<longrightarrow>
      (\<exists>newid api. reply = PutAssigned newid \<and> body = Inr api
         \<and> p = StringEntity (FormatInt10 newid)
         \<and> ParseInt10 (FormatInt10 newid) = sint newid
         \<and> entities (snd (insertStatus env reply body w))
             = entities w @ [(status_key newid, mapAPItoDBStatus env api new_StatusEntity)]
         \<and> (distinct (map (\<lambda>ke. IntID (fst ke)) (entities w)) \<longrightarrow>
              distinct (map (\<lambda>ke. IntID (fst ke)) (entities (snd (insertStatus env reply body w)))))))
   \<and> ((\<forall>q. fst (insertStatus env reply body w) \<noteq> Response 201 q) \<longrightarrow>
        entities (snd (insertStatus env reply body w)) = entities w)
   \<and> entities (snd (getStatus env r dateString w)) = entities w
   \<and> entities (snd (getCurrentStatus env r w)) = entities w"
proof -
  have a: "\<exists>newid api. reply = PutAssigned newid \<and> body = Inr api
         \<and> p = StringEntity (FormatInt10 newid)
         \<and> ParseInt10 (FormatInt10 newid) = sint newid
         \<and> entities (snd (insertStatus env reply body w))
             = entities w @ [(status_key newid, mapAPItoDBStatus env api new_StatusEntity)]
         \<and> (distinct (map (\<lambda>ke. IntID (fst ke)) (entities w)) \<longrightarrow>
              distinct (map (\<lambda>ke. IntID (fst ke)) (entities (snd (insertStatus env reply body w)))))"
    if c: "fst (insertStatus env reply body w) = Response 201 p"
      and f: "\<forall>newid. reply = PutAssigned newid \<longrightarrow> fresh_id w newid"
  proof -
    obtain newid api where rb: "reply = PutAssigned newid" "body = Inr api"
      using insertStatus_created [OF c] by blast
    have fr: "fresh_id w newid" using f rb by simp
    have p: "p = StringEntity (FormatInt10 newid)"
      using c rb by (simp add: insertStatus_assigned)
    have e: "entities (snd (insertStatus env reply body w))
             = entities w @ [(status_key newid, mapAPItoDBStatus env api new_StatusEntity)]"
      using rb by (simp add: insertStatus_assigned store_entity_fresh [OF fresh_id_key [OF fr]])
    have d: "distinct (map (\<lambda>ke. IntID (fst ke)) (entities (snd (insertStatus env reply body w))))"
      if "distinct (map (\<lambda>ke. IntID (fst ke)) (entities w))"
      using that fr by (simp add: e fresh_id_def status_key_def)
    show ?thesis using rb p e d ParseInt10_FormatInt10 [of newid] by blast
  qed
  show ?thesis
    using a insertStatus_not_created [of env reply body w]
      getStatus_entities [of env r dateString w] getCurrentStatus_entities [of env r w]
    by blast
qed

theorem insertStatus_appends_witness:
  "fst (insertStatus sample_env (PutAssigned 8)
          (Inr \<lparr>json_id = 0, json_status = 100, json_changeDate = ''2024-01-01T00:00:00Z''\<rparr>)
          \<lparr>entities = [(status_key 7, \<lparr>Status = 300, ChangeDate = 5\<rparr>)], calls = []\<rparr>)
      = Response 201 (StringEntity ''8'')
   \<and> fresh_id \<lparr>entities = [(status_key 7, \<lparr>Status = 300, ChangeDate = 5\<rparr>)], calls = []\<rparr> 8
   \<and> distinct (map (\<lambda>ke. IntID (fst ke)) [(status_key 7, \<lparr>Status = 300, ChangeDate = 5\<rparr>)])
   \<and> entities (snd (insertStatus sample_env (PutAssigned 8)
          (Inr \<lparr>json_id = 0, json_status = 100, json_changeDate = ''2024-01-01T00:00:00Z''\<rparr>)
          \<lparr>entities = [(status_key 7, \<lparr>Status = 300, ChangeDate = 5\<rparr>)], calls = []\<rparr>))
      = [(status_key 7, \<lparr>Status = 300, ChangeDate = 5\<rparr>),
         (status_key 8, \<lparr>Status = 100, ChangeDate = 63839664000\<rparr>)]
   \<and> (\<forall>q. fst (insertStatus sample_env (PutFailed (OverQuota ''quota''))
          (Inr \<lparr>json_id = 0, json_status = 100, json_changeDate = ''2024-01-01T00:00:00Z''\<rparr>)
          \<lparr>entities = [(status_key 7, \<lparr>Status = 300, ChangeDate = 5\<rparr>)], calls = []\<rparr>)
        \<noteq> Response 201 q)
   \<and> entities (snd (insertStatus sample_env (PutFailed (OverQuota ''quota''))
          (Inr \<lparr>json_id = 0, json_status = 100, json_changeDate = ''2024-01-01T00:00:00Z''\<rparr>)
          \<lparr>entities = [(status_key 7, \<lparr>Status = 300, ChangeDate = 5\<rparr>)], calls = []\<rparr>))
      = [(status_key 7, \<lparr>Status = 300, ChangeDate = 5\<rparr>)]"
  using insertStatus_appends [of sample_env "PutAssigned 8"
          "Inr \<lparr>json_id = 0, json_status = 100, json_changeDate = ''2024-01-01T00:00:00Z''\<rparr>"
          "\<lparr>entities = [(status_key 7, \<lparr>Status = 300, ChangeDate = 5\<rparr>)], calls = []\<rparr>"
          "StringEntity ''8''" None "''''"]
        insertStatus_appends [of sample_env "PutFailed (OverQuota ''quota'')"
          "Inr \<lparr>json_id = 0, json_status = 100, json_changeDate = ''2024-01-01T00:00:00Z''\<rparr>"
          "\<lparr>entities = [(status_key 7, \<lparr>Status = 300, ChangeDate = 5\<rparr>)], calls = []\<rparr>"
          "StringEntity ''8''" None "''''"]
  by (simp add: insertStatus_assigned insertStatus_failed quota_or_failure_def fresh_id_def
        status_key_def FormatInt10_def digits10.simps digit_char_def store_entity_def
        mapAPItoDBStatus_def new_StatusEntity_def time_Parse_def sample_env_def)

text \<open>
  C10. A field mismatch reported by \<^verbatim>\<open>GetAll\<close> is not fatal to either read handler:
  the answer is the one given without the error. \<^verbatim>\<open>getStatus\<close> answers 200 with the
  records that were loaded, and \<^verbatim>\<open>getCurrentStatus\<close> answers 200 with one loaded
  record whenever there is a status record to load (on a store without one it panics
  with or without the error, see C5).
\<close>

theorem field_mismatch_tolerated:
  assumes "dateFrom_bound env dateString = Some d"
  shows "getStatus env (Some (ErrFieldMismatch m)) dateString w =
           (Response 200 (ListEntity (map (api_record env) (run_query (all_query d) (entities w)))),
            w\<lparr>calls := calls w @ [GetAllCall (all_query d)]\<rparr>)
         \<and> getStatus env (Some (ErrFieldMismatch m)) dateString w = getStatus env None dateString w
         \<and> (status_records w \<noteq> [] \<longrightarrow>
              (\<exists>r \<in> set (status_records w).
                 fst (getCurrentStatus env (Some (ErrFieldMismatch m)) w)
                   = Response 200 (ListEntity [api_record env r])))
         \<and> getCurrentStatus env (Some (ErrFieldMismatch m)) w = getCurrentStatus env None w"
proof -
  have t: "tolerated (Some (ErrFieldMismatch m))" "tolerated None"
    by (simp_all add: tolerated_def)
  have a: "getStatus env (Some (ErrFieldMismatch m)) dateString w =
           (Response 200 (ListEntity (map (api_record env) (run_query (all_query d) (entities w)))),
            w\<lparr>calls := calls w @ [GetAllCall (all_query d)]\<rparr>)"
    by (rule getStatus_tolerated [OF assms t(1)])
  have b: "getStatus env (Some (ErrFieldMismatch m)) dateString w = getStatus env None dateString w"
    by (simp add: getStatus_tolerated [OF assms t(1)] getStatus_tolerated [OF assms t(2)])
  have c: "getCurrentStatus env (Some (ErrFieldMismatch m)) w = getCurrentStatus env None w"
    by (simp add: getCurrentStatus_tolerated [OF t(1)] getCurrentStatus_tolerated [OF t(2)])
  have d: "\<exists>r \<in> set (status_records w).
                 fst (getCurrentStatus env (Some (ErrFieldMismatch m)) w)
                   = Response 200 (ListEntity [api_record env r])"
    if ne: "status_records w \<noteq> []"
  proof -
    let ?s = "sort_key (\<lambda>ke. - ChangeDate (snd ke)) (status_records w)"
    have "?s \<noteq> []" using ne by (metis length_0_conv length_sort)
    then obtain r rest where s: "?s = r # rest" by (cases ?s) auto
    have "r \<in> set ?s" by (simp add: s)
    then have "r \<in> set (status_records w)" by simp
    moreover have "fst (getCurrentStatus env (Some (ErrFieldMismatch m)) w)
                   = Response 200 (ListEntity [api_record env r])"
      by (simp add: getCurrentStatus_tolerated [OF t(1)] run_query_latest s)
    ultimately show ?thesis by blast
  qed
  show ?thesis using a b c d by blast
qed

theorem field_mismatch_tolerated_witness:
  "dateFrom_bound sample_env '''' = Some 0
   \<and> status_records \<lparr>entities = [(status_key 7, \<lparr>Status = 100, ChangeDate = 0\<rparr>)], calls = []\<rparr> \<noteq> []
   \<and> fst (getStatus sample_env (Some (ErrFieldMismatch ''datastore: cannot load field'')) ''''
            \<lparr>entities = [(status_key 7, \<lparr>Status = 100, ChangeDate = 0\<rparr>)], calls = []\<rparr>)
       = Response 200 (ListEntity
            [\<lparr>json_id = 7, json_status = 100, json_changeDate = ''0001-01-01T00:00:00Z''\<rparr>])
   \<and> fst (getCurrentStatus sample_env (Some (ErrFieldMismatch ''datastore: cannot load field''))
            \<lparr>entities = [(status_key 7, \<lparr>Status = 100, ChangeDate = 0\<rparr>)], calls = []\<rparr>)
       = Response 200 (ListEntity
            [\<lparr>json_id = 7, json_status = 100, json_changeDate = ''0001-01-01T00:00:00Z''\<rparr>])"
  using field_mismatch_tolerated [of sample_env "''''" 0 "''datastore: cannot load field''"
          "\<lparr>entities = [(status_key 7, \<lparr>Status = 100, ChangeDate = 0\<rparr>)], calls = []\<rparr>"]
  by (simp add: dateFrom_bound_def zeroTime_def status_records_def status_key_def
        run_query_def all_query_def latest_query_def Order_ChangeDate_desc_def
        Filter_ChangeDate_ge_def Limit_def NewQuery_def
        api_record_def mapDBtoAPIStatus_def new_StatusEntityAPIv1_def
        sample_env_def getCurrentStatus_tolerated tolerated_def)

end
